theory Spec2Isabelle
  imports Main "HOL-Library.Word"
begin

unbundle bit_operations_syntax

section \<open>The error identifier macro (gnuastro/error.h)\<close>

text \<open>
  \<^verbatim>\<open>#define GAL_ERROR_BITSET(lib_code, code, is_warning)
       ((lib_code << 16) | (code << 8) | is_warning)\<close>

  The macro is textual: it shifts and ors its arguments as they are, with no mask and no
  range test. Its callers hand it C \<^verbatim>\<open>int\<close>s (\<^verbatim>\<open>gal_error\<close> takes
  \<^verbatim>\<open>int lib_code, int error_code, int is_warning\<close>), so the arguments are modelled as
  mathematical integers; the result is stored into a \<^verbatim>\<open>uint32_t\<close>, which is the
  conversion \<open>to_uint32\<close> (reduction modulo \<open>2 ^ 32\<close>).
\<close>

definition GAL_ERROR_BITSET :: "int \<Rightarrow> int \<Rightarrow> int \<Rightarrow> int" where
  "GAL_ERROR_BITSET lc c w = (push_bit 16 lc OR push_bit 8 c) OR w"

definition to_uint32 :: "int \<Rightarrow> 32 word" where
  "to_uint32 k = word_of_int k"

text \<open>
  The reading of the specification's sentence "each field clamped to [0,255]" that is
  compared with the macro: every argument is first forced into the range, then packed.
\<close>

definition clamp_0_255 :: "int \<Rightarrow> int" where
  "clamp_0_255 k = max 0 (min 255 k)"

definition spec_bitset_clamped :: "int \<Rightarrow> int \<Rightarrow> int \<Rightarrow> int" where
  "spec_bitset_clamped lc c w =
     (push_bit 16 (clamp_0_255 lc) OR push_bit 8 (clamp_0_255 c)) OR clamp_0_255 w"

section \<open>The error record and the chain (gnuastro/error.h)\<close>

text \<open>
  \<^verbatim>\<open>typedef struct gal_error_t { uint8_t code; uint8_t lib_code; uint8_t type;
     uint8_t is_warning; char *back_msg; char *front_msg; struct gal_error_t *next; }\<close>

  A \<^verbatim>\<open>char *\<close> that may be \<^verbatim>\<open>NULL\<close> is a \<open>string option\<close>. The \<^verbatim>\<open>next\<close>
  pointer is the tail of a list: a chain is the list of its records from the head on, and
  \<^verbatim>\<open>NULL\<close> is the empty list. Every chain the functions below build is acyclic, so the
  list loses nothing.
\<close>

record gal_error_t =
  code :: "8 word"
  lib_code :: "8 word"
  type :: "8 word"
  is_warning :: "8 word"
  back_msg :: "string option"
  front_msg :: "string option"

type_synonym chain = "gal_error_t list"

text \<open>
  \<^verbatim>\<open>error(EXIT_FAILURE, ...)\<close> and \<^verbatim>\<open>exit(EXIT_FAILURE)\<close> end the process. A function
  that can do so returns \<open>exit_status + 'a\<close>: \<open>Inl s\<close> is "the process ended with status
  \<open>s\<close>", \<open>Inr x\<close> is a normal return.
\<close>

datatype exit_status = EXIT_SUCCESS | EXIT_FAILURE

section \<open>Library names (lib/error.c, enum gal\_error\_library\_codes)\<close>

text \<open>
  The enumeration starts with \<^verbatim>\<open>GAL_ERROR_LIB_INVALID\<close> (0) and then numbers the
  libraries in the order of the header, from \<^verbatim>\<open>GAL_ERROR_LIB_ARITHMETIC\<close> (1) to
  \<^verbatim>\<open>GAL_ERROR_LIB_WCS\<close> (41); \<^verbatim>\<open>GAL_ERROR_LIB_NUMLIBS\<close> is 42. The switch of
  \<^verbatim>\<open>gal_error_print_lib_name\<close> has one case for each of 1..41. \<^verbatim>\<open>PACKAGE_BUGREPORT\<close>
  comes from \<^verbatim>\<open>config.h\<close>, which is not part of the sources, so it is a parameter.
\<close>

definition lib_names :: "string list" where
  "lib_names =
    [''arithmetic.h'', ''array.h'', ''binary.h'', ''blank.h'', ''box.h'', ''color.h'',
     ''convolve.h'', ''cosmology.h'', ''data.h'', ''dimension.h'', ''ds9.h'', ''eps.h'',
     ''error.h'', ''errorinprogram.h'', ''fit.h'', ''fits.h'', ''git.h'',
     ''interpolate.h'', ''jpeg.h'', ''kdtree.h'', ''label.h'', ''list.h'', ''match.h'',
     ''pdf.h'', ''permutation.h'', ''pointer.h'', ''polygon.h'', ''pool.h'', ''python.h'',
     ''qsort.h'', ''speclines.h'', ''statistics.h'', ''table.h'', ''threads.h'', ''tiff.h'',
     ''tile.h'', ''txt.h'', ''type.h'', ''units.h'', ''warp.h'', ''wcs.h'']"

definition gal_error_print_lib_name :: "string \<Rightarrow> int \<Rightarrow> string" where
  "gal_error_print_lib_name package_bugreport lc =
     (if 1 \<le> lc \<and> lc \<le> 41 then lib_names ! nat (lc - 1)
      else ''NOT-DEFINED! A bug! Please contact us at '' @ package_bugreport)"

section \<open>Formatting (lib/error.c)\<close>

text \<open>
  \<^verbatim>\<open>%d\<close> of a \<^verbatim>\<open>uint8_t\<close> (promoted to \<^verbatim>\<open>int\<close>, so never negative): the decimal
  digits, no sign, no padding.
\<close>

fun decimal :: "nat \<Rightarrow> string" where
  "decimal n =
     (if n < 10 then [''0123456789'' ! n]
      else decimal (n div 10) @ [''0123456789'' ! (n mod 10)])"

text \<open>
  \<^verbatim>\<open>%s\<close> of a string prints the string. Of \<^verbatim>\<open>NULL\<close> the C standard says nothing;
  \<^verbatim>\<open>asprintf\<close> is the GNU C library's, which prints \<^verbatim>\<open>(null)\<close>. Only
  \<^verbatim>\<open>back_msg\<close> can reach \<^verbatim>\<open>%s\<close> as \<^verbatim>\<open>NULL\<close>, and only in a record that was
  allocated without a message.
\<close>

definition fmt_s :: "string option \<Rightarrow> string" where
  "fmt_s s = (case s of None \<Rightarrow> ''(null)'' | Some t \<Rightarrow> t)"

text \<open>
  \<^verbatim>\<open>gal_error_to_string\<close>: the status tag from \<^verbatim>\<open>is_warning\<close>, then one of the two
  formats \<^verbatim>\<open>"%s: %s: %d: %s %s"\<close> and \<^verbatim>\<open>"%s: %d: %s %s"\<close>. \<^verbatim>\<open>verbose\<close> is an
  argument the body never reads. (\<^verbatim>\<open>asprintf\<close> is taken to succeed.)
\<close>

definition gal_error_to_string :: "string \<Rightarrow> gal_error_t \<Rightarrow> int \<Rightarrow> string" where
  "gal_error_to_string package_bugreport err verbose =
     (let stat = (if is_warning err = 0 then ''[BREAKING]'' else ''[WARNING]'')
      in case front_msg err of
           Some f \<Rightarrow>
             f @ '': '' @ gal_error_print_lib_name package_bugreport (uint (lib_code err))
               @ '': '' @ decimal (unat (code err)) @ '': '' @ fmt_s (back_msg err)
               @ '' '' @ stat
         | None \<Rightarrow>
             gal_error_print_lib_name package_bugreport (uint (lib_code err))
               @ '': '' @ decimal (unat (code err)) @ '': '' @ fmt_s (back_msg err)
               @ '' '' @ stat)"

text \<open>
  \<^verbatim>\<open>gal_error_to_stderr_all\<close>. The standard error stream is the list of the messages
  handed to \<^verbatim>\<open>error(EXIT_SUCCESS, 0, errstr)\<close>, one line each, in the order written
  (\<^verbatim>\<open>error\<close> puts the program's name and a colon before each and a newline after;
  it reads \<^verbatim>\<open>errstr\<close> as a format, so the model is of messages without a
  \<^verbatim>\<open>%\<close>).
  The loop walks \<^verbatim>\<open>tmperr\<close> over the chain; the test that counts reads
  \<^verbatim>\<open>err->is_warning\<close>, the record the function was called with, at every step, and the
  model keeps that record (\<open>head\<close>) beside the rest of the walk. \<^verbatim>\<open>ncritical\<close> is an
  \<^verbatim>\<open>int\<close>; a count beyond \<open>2 ^ 31 - 1\<close> is outside the model.
\<close>

fun to_stderr_loop ::
  "string \<Rightarrow> int \<Rightarrow> gal_error_t \<Rightarrow> chain \<Rightarrow> int \<Rightarrow> string list \<Rightarrow> int \<times> string list" where
  "to_stderr_loop package_bugreport verbose head [] ncritical out = (ncritical, out)"
| "to_stderr_loop package_bugreport verbose head (tmperr # rest) ncritical out =
     to_stderr_loop package_bugreport verbose head rest
       (if is_warning head = 0 then ncritical + 1 else ncritical)
       (out @ [gal_error_to_string package_bugreport tmperr verbose])"

definition gal_error_to_stderr_all :: "string \<Rightarrow> chain \<Rightarrow> int \<Rightarrow> int \<times> string list" where
  "gal_error_to_stderr_all package_bugreport err verbose =
     (case err of
        [] \<Rightarrow> (0, [])
      | head # _ \<Rightarrow> to_stderr_loop package_bugreport verbose head err 0 [])"

text \<open>\<^verbatim>\<open>gal_error_occurred\<close>: 0 when the chain is empty or its head is a warning.\<close>

definition gal_error_occurred :: "chain \<Rightarrow> 8 word" where
  "gal_error_occurred err =
     (case err of [] \<Rightarrow> 0 | head # _ \<Rightarrow> if is_warning head \<noteq> 0 then 0 else 1)"

section \<open>Building the chain (lib/error.c)\<close>

text \<open>
  Modelled from the spec: \<^verbatim>\<open>gal_checkset_allocate_copy\<close> is declared in
  \<^verbatim>\<open>gnuastro-internal/checkset.h\<close> and defined outside the sources at hand. The
  specification says that allocation "deep-copies \<^verbatim>\<open>back_msg\<close>"; the copy of a string is
  the same string, and the copy of no string is no string. It writes its result through
  its second argument, which here is the returned value.
\<close>

definition gal_checkset_allocate_copy :: "string option \<Rightarrow> string option" where
  "gal_checkset_allocate_copy arg = arg"

text \<open>
  \<^verbatim>\<open>gal_error_allocate\<close>: \<^verbatim>\<open>calloc\<close> zeroes the structure, so \<^verbatim>\<open>type\<close> is 0 and
  \<^verbatim>\<open>front_msg\<close> and \<^verbatim>\<open>next\<close> are \<^verbatim>\<open>NULL\<close>; then the three codes are stored and the
  message is copied. The model takes \<^verbatim>\<open>calloc\<close> to succeed (its failure ends the
  process and says nothing about the chain).
\<close>

definition gal_error_allocate ::
  "8 word \<Rightarrow> 8 word \<Rightarrow> string option \<Rightarrow> 8 word \<Rightarrow> gal_error_t" where
  "gal_error_allocate lc c bmsg w =
     \<lparr> code = c, lib_code = lc, type = 0, is_warning = w,
       back_msg = gal_checkset_allocate_copy bmsg, front_msg = None \<rparr>"

text \<open>
  \<^verbatim>\<open>gal_error_bits_extract\<close>: the three output pointers become the returned triple
  \<open>(lib_code, code, is_warning)\<close>.
\<close>

definition gal_error_bits_extract :: "32 word \<Rightarrow> 8 word \<times> 8 word \<times> 8 word" where
  "gal_error_bits_extract bitstring =
     (let w = (if bitstring mod 2 \<noteq> 0 then 1 else 0);
          c = ucast (drop_bit 8 bitstring AND 255);
          lc = ucast (drop_bit 16 bitstring AND 255)
      in (lc, c, w))"

text \<open>\<^verbatim>\<open>gal_error_add_back_msg\<close>: the chain behind \<^verbatim>\<open>*err\<close> goes in, the new one comes out.\<close>

definition gal_error_add_back_msg :: "chain \<Rightarrow> string option \<Rightarrow> 32 word \<Rightarrow> chain" where
  "gal_error_add_back_msg err bmsg bitstring =
     (case bmsg of
        None \<Rightarrow> err
      | Some _ \<Rightarrow>
          (case gal_error_bits_extract bitstring of
             (lc, c, w) \<Rightarrow> gal_error_allocate lc c bmsg w # err))"

text \<open>
  \<^verbatim>\<open>gal_error_add_front_msg\<close>: nothing happens on an empty chain or without a message;
  a head that has a front message and \<^verbatim>\<open>replace == 0\<close> is
  \<^verbatim>\<open>error(EXIT_FAILURE, ...)\<close>; otherwise the head's front message is the copy.
\<close>

definition gal_error_add_front_msg ::
  "chain \<Rightarrow> string option \<Rightarrow> 8 word \<Rightarrow> exit_status + chain" where
  "gal_error_add_front_msg err fmsg replace =
     (case err of
        [] \<Rightarrow> Inr err
      | head # rest \<Rightarrow>
          if fmsg = None then Inr err
          else if front_msg head \<noteq> None \<and> replace = 0 then Inl EXIT_FAILURE
          else Inr (head\<lparr>front_msg := gal_checkset_allocate_copy fmsg\<rparr> # rest))"

text \<open>
  \<^verbatim>\<open>gal_error_reverse\<close>. The \<^verbatim>\<open>while\<close> loop walks \<^verbatim>\<open>*err\<close> to the end while it
  builds \<^verbatim>\<open>correctorder\<close>: for each record it packs the three codes into a
  \<^verbatim>\<open>uint32_t\<close>, pushes a new record with the record's back message, and gives the new
  head the record's front message with \<^verbatim>\<open>replace = 0\<close>.
\<close>

definition reverse_bitstring :: "gal_error_t \<Rightarrow> 32 word" where
  "reverse_bitstring e =
     (let bitstring = ucast (lib_code e);
          bitstring = push_bit 8 bitstring OR ucast (code e);
          bitstring = push_bit 8 bitstring OR ucast (is_warning e)
      in bitstring)"

fun reverse_loop :: "chain \<Rightarrow> chain \<Rightarrow> exit_status + chain" where
  "reverse_loop [] correctorder = Inr correctorder"
| "reverse_loop (e # rest) correctorder =
     (case gal_error_add_front_msg
             (gal_error_add_back_msg correctorder (back_msg e) (reverse_bitstring e))
             (front_msg e) 0 of
        Inl s \<Rightarrow> Inl s
      | Inr correctorder' \<Rightarrow> reverse_loop rest correctorder')"

definition gal_error_reverse :: "chain \<Rightarrow> exit_status + chain" where
  "gal_error_reverse err =
     (case err of
        [] \<Rightarrow> Inr err
      | [_] \<Rightarrow> Inr err
      | _ # _ # _ \<Rightarrow> reverse_loop err [])"

text \<open>\<^verbatim>\<open>gal_error_check\<close>: the decoded \<^verbatim>\<open>code\<close> alone is compared, record by record.\<close>

fun check_loop :: "chain \<Rightarrow> 8 word \<Rightarrow> 8 word" where
  "check_loop [] c = 0"
| "check_loop (tmperr # rest) c = (if code tmperr = c then 1 else check_loop rest c)"

definition gal_error_check :: "chain \<Rightarrow> 32 word \<Rightarrow> 8 word" where
  "gal_error_check err bitstring =
     (case gal_error_bits_extract bitstring of (lc, c, w) \<Rightarrow> check_loop err c)"

section \<open>The boundary of a program (gnuastro/errorinprogram.h)\<close>

text \<open>
  Modelled from the spec: \<^verbatim>\<open>gal_error_print\<close>, which \<^verbatim>\<open>gal_errorinprogram\<close> calls
  with the chain as its one argument, is neither declared nor defined in the sources at
  hand. The specification says of the boundary guard: "Invokes \<^verbatim>\<open>print_all\<close>; if the
  returned critical count is nonzero, terminates the process with a failure status;
  otherwise returns normally", and of \<^verbatim>\<open>print_all\<close>: "returns 0 without touching the
  output stream if the chain is empty; otherwise visits every record head-to-tail in its
  current (not reordered) order, writes one formatted line per record, and returns the
  count of records whose own severity is non-warning (each record tested individually)".
  The formatted line is that of \<^verbatim>\<open>gal_error_to_string\<close>; the guard passes no
  verbosity, the formatting does not read it, and 0 stands for it.
\<close>

definition gal_error_print :: "string \<Rightarrow> chain \<Rightarrow> int \<times> string list" where
  "gal_error_print package_bugreport err =
     (int (length (filter (\<lambda>r. is_warning r = 0) err)),
      map (\<lambda>r. gal_error_to_string package_bugreport r 0) err)"

text \<open>
  \<^verbatim>\<open>gal_errorinprogram\<close>: \<^verbatim>\<open>if(gal_error_print(error)) exit(EXIT_FAILURE);\<close>. The
  result is what reached the standard error stream and how the call ended.
\<close>

definition gal_errorinprogram :: "string \<Rightarrow> chain \<Rightarrow> string list \<times> (exit_status + unit)" where
  "gal_errorinprogram package_bugreport err =
     (case gal_error_print package_bugreport err of
        (ncritical, out) \<Rightarrow> (out, if ncritical \<noteq> 0 then Inl EXIT_FAILURE else Inr ()))"

section \<open>Notions used to state the properties\<close>

text \<open>
  What one turn of the loop of \<^verbatim>\<open>gal_error_reverse\<close> makes of a record that has a
  back message (lemma \<open>reverse_step_Some\<close> below): the codes go through the bitstring
  and come back, \<open>is_warning\<close> as its parity, \<^verbatim>\<open>type\<close> is the zero of
  \<^verbatim>\<open>calloc\<close>, and the two messages are copied.
\<close>

definition reallocated :: "gal_error_t \<Rightarrow> gal_error_t" where
  "reallocated e =
     \<lparr> code = code e, lib_code = lib_code e, type = 0, is_warning = is_warning e AND 1,
       back_msg = back_msg e, front_msg = front_msg e \<rparr>"

text \<open>Concrete records and chains, for the instances below.\<close>

definition sample_head :: gal_error_t where
  "sample_head =
     \<lparr> code = 5, lib_code = 3, type = 0, is_warning = 0,
       back_msg = Some ''division by zero'', front_msg = None \<rparr>"

definition sample_warning_head :: chain where
  "sample_warning_head =
     gal_error_add_back_msg
       (gal_error_add_back_msg
          (gal_error_add_back_msg [] (Some ''first'') (to_uint32 (GAL_ERROR_BITSET 8 1 0)))
          (Some ''second'') (to_uint32 (GAL_ERROR_BITSET 8 2 0)))
       (Some ''third'') (to_uint32 (GAL_ERROR_BITSET 8 3 1))"

definition sample_critical_head :: chain where
  "sample_critical_head =
     gal_error_add_back_msg
       (gal_error_add_back_msg
          (gal_error_add_back_msg [] (Some ''first'') (to_uint32 (GAL_ERROR_BITSET 8 1 1)))
          (Some ''second'') (to_uint32 (GAL_ERROR_BITSET 8 2 0)))
       (Some ''third'') (to_uint32 (GAL_ERROR_BITSET 8 3 0))"

definition sample_A :: gal_error_t where
  "sample_A = \<lparr> code = 1, lib_code = 8, type = 0, is_warning = 0,
                back_msg = Some ''a'', front_msg = Some ''ctx'' \<rparr>"

definition sample_B :: gal_error_t where
  "sample_B = \<lparr> code = 2, lib_code = 8, type = 0, is_warning = 1,
                back_msg = Some ''b'', front_msg = None \<rparr>"

definition sample_C :: gal_error_t where
  "sample_C = \<lparr> code = 7, lib_code = 3, type = 0, is_warning = 0,
                back_msg = Some ''c'', front_msg = None \<rparr>"

section \<open>Facts about the codec\<close>

lemma and255_w32: "(x::32 word) AND 255 = take_bit 8 x"
  by (simp add: take_bit_eq_mask mask_eq_exp_minus_1)

lemma in_range_take_bit: "0 \<le> k \<Longrightarrow> k \<le> 255 \<Longrightarrow> take_bit 8 k = (k::int)"
  by (simp add: take_bit_int_eq_self)

lemma bits_extract_eq:
  "gal_error_bits_extract bs =
     (ucast (take_bit 8 (drop_bit 16 bs)), ucast (take_bit 8 (drop_bit 8 bs)),
      if odd bs then 1 else 0)"
  by (auto simp: gal_error_bits_extract_def Let_def and255_w32 even_iff_mod_2_eq_zero
      odd_iff_mod_2_eq_one)

lemma bitset_lib_field:
  "take_bit 8 (drop_bit 16
       (to_uint32 (GAL_ERROR_BITSET (take_bit 8 l) (take_bit 8 c) (take_bit 8 w))))
     = word_of_int (take_bit 8 l)"
  unfolding to_uint32_def GAL_ERROR_BITSET_def
  by (rule bit_word_eqI) (auto simp: bit_simps)

lemma bitset_code_field:
  "take_bit 8 (drop_bit 8
       (to_uint32 (GAL_ERROR_BITSET (take_bit 8 l) (take_bit 8 c) (take_bit 8 w))))
     = word_of_int (take_bit 8 c)"
  unfolding to_uint32_def GAL_ERROR_BITSET_def
  by (rule bit_word_eqI) (auto simp: bit_simps)

lemma bitset_warning_field:
  "take_bit 8 (to_uint32 (GAL_ERROR_BITSET (take_bit 8 l) (take_bit 8 c) (take_bit 8 w)))
     = word_of_int (take_bit 8 w)"
  unfolding to_uint32_def GAL_ERROR_BITSET_def
  by (rule bit_word_eqI) (auto simp: bit_simps)

lemma bitset_high_byte:
  "drop_bit 24 (to_uint32 (GAL_ERROR_BITSET (take_bit 8 l) (take_bit 8 c) (take_bit 8 w))) = 0"
  unfolding to_uint32_def GAL_ERROR_BITSET_def
  by (rule bit_word_eqI) (auto simp: bit_simps)

lemma uint_ucast_w32_of_byte:
  "0 \<le> k \<Longrightarrow> k \<le> 255 \<Longrightarrow> uint (ucast (word_of_int k :: 32 word) :: 8 word) = k"
  by (simp add: unsigned_ucast_eq uint_word_of_int take_bit_int_eq_self)

lemma uint_w32_of_byte:
  "0 \<le> k \<Longrightarrow> k \<le> 255 \<Longrightarrow> uint (word_of_int k :: 32 word) = k"
  by (simp add: uint_word_of_int take_bit_int_eq_self)

lemma odd_bitset: "odd (GAL_ERROR_BITSET l c w) \<longleftrightarrow> odd w"
  unfolding GAL_ERROR_BITSET_def by (simp add: even_or_iff)

lemma odd_to_uint32: "odd (to_uint32 k) \<longleftrightarrow> odd k"
proof -
  have "odd (to_uint32 k) \<longleftrightarrow> bit (word_of_int k :: 32 word) 0"
    by (simp add: to_uint32_def bit_0)
  also have "\<dots> \<longleftrightarrow> bit k 0"
    by (simp add: bit_word_of_int_iff)
  finally show ?thesis by (simp add: bit_0)
qed

lemma clamp_in_range: "0 \<le> k \<Longrightarrow> k \<le> 255 \<Longrightarrow> clamp_0_255 k = k"
  by (simp add: clamp_0_255_def)

section \<open>The encoding and its fields\<close>

text \<open>
  C3, as the specification has it: the macro clamps each argument to [0,255] before it
  places it, so that an argument out of range cannot touch the neighbouring fields. The
  macro has no clamp and no mask: with \<open>is_warning = 256\<close> and \<open>code = 0\<close> the
  code field (bits 8-15) of the identifier holds 1, so the neighbouring field is
  touched; the low byte holds 0 and not the clamped 255; and the identifier is not the
  one the clamping encoder gives.
\<close>

theorem bitset_not_clamped_counterexample:
  "drop_bit 8 (to_uint32 (GAL_ERROR_BITSET 0 0 256)) AND 255 = 1
   \<and> to_uint32 (GAL_ERROR_BITSET 0 0 256) AND 255 = 0
   \<and> to_uint32 (GAL_ERROR_BITSET 0 0 256) \<noteq> to_uint32 (spec_bitset_clamped 0 0 256)"
  by (simp add: GAL_ERROR_BITSET_def spec_bitset_clamped_def clamp_0_255_def to_uint32_def)

text \<open>
  C3, amended: when the three arguments are in [0,255] the identifier holds
  \<open>lib_code\<close> at bits 16-23, \<open>code\<close> at bits 8-15 and \<open>is_warning\<close> at bits 0-7,
  its bits 24-31 are zero, and it is the identifier of the clamping encoder.
\<close>

theorem bitset_fields_in_range:
  assumes "0 \<le> l" "l \<le> 255" "0 \<le> c" "c \<le> 255" "0 \<le> w" "w \<le> 255"
  shows "uint (drop_bit 16 (to_uint32 (GAL_ERROR_BITSET l c w)) AND 255) = l
       \<and> uint (drop_bit 8 (to_uint32 (GAL_ERROR_BITSET l c w)) AND 255) = c
       \<and> uint (to_uint32 (GAL_ERROR_BITSET l c w) AND 255) = w
       \<and> drop_bit 24 (to_uint32 (GAL_ERROR_BITSET l c w)) = 0
       \<and> spec_bitset_clamped l c w = GAL_ERROR_BITSET l c w"
proof -
  have tb: "take_bit 8 l = l" "take_bit 8 c = c" "take_bit 8 w = w"
    using assms by (simp_all add: in_range_take_bit)
  have "uint (drop_bit 16 (to_uint32 (GAL_ERROR_BITSET l c w)) AND 255) = l"
    using bitset_lib_field [of l c w] assms(1,2) by (simp add: tb and255_w32 uint_w32_of_byte)
  moreover have "uint (drop_bit 8 (to_uint32 (GAL_ERROR_BITSET l c w)) AND 255) = c"
    using bitset_code_field [of l c w] assms(3,4) by (simp add: tb and255_w32 uint_w32_of_byte)
  moreover have "uint (to_uint32 (GAL_ERROR_BITSET l c w) AND 255) = w"
    using bitset_warning_field [of l c w] assms(5,6) by (simp add: tb and255_w32 uint_w32_of_byte)
  moreover have "drop_bit 24 (to_uint32 (GAL_ERROR_BITSET l c w)) = 0"
    using bitset_high_byte [of l c w] by (simp add: tb)
  moreover have "spec_bitset_clamped l c w = GAL_ERROR_BITSET l c w"
    using assms by (simp add: GAL_ERROR_BITSET_def spec_bitset_clamped_def clamp_in_range)
  ultimately show ?thesis by simp
qed

theorem bitset_fields_in_range_witness:
  "(0::int) \<le> 8 \<and> (8::int) \<le> 255 \<and> (0::int) \<le> 200 \<and> (200::int) \<le> 255
   \<and> (0::int) \<le> 1 \<and> (1::int) \<le> 255
   \<and> uint (drop_bit 16 (to_uint32 (GAL_ERROR_BITSET 8 200 1)) AND 255) = 8
   \<and> uint (drop_bit 8 (to_uint32 (GAL_ERROR_BITSET 8 200 1)) AND 255) = 200
   \<and> uint (to_uint32 (GAL_ERROR_BITSET 8 200 1) AND 255) = 1
   \<and> drop_bit 24 (to_uint32 (GAL_ERROR_BITSET 8 200 1)) = 0
   \<and> spec_bitset_clamped 8 200 1 = GAL_ERROR_BITSET 8 200 1"
  using bitset_fields_in_range [of 8 200 1] by simp

text \<open>
  C5, as the specification has it: for \<open>lib_code\<close> and \<open>code\<close> in [0,255] and every
  \<open>is_warning\<close>, decoding the encoding gives \<open>lib_code\<close> and \<open>code\<close> back. With
  \<open>lib_code = 1\<close>, \<open>code = 4\<close> and \<open>is_warning = 256\<close> the decoded code is 5.
\<close>

theorem decode_encode_counterexample:
  "gal_error_bits_extract (to_uint32 (GAL_ERROR_BITSET 1 4 256)) = (1, 5, 0)"
  by (simp add: gal_error_bits_extract_def GAL_ERROR_BITSET_def to_uint32_def)

text \<open>
  C5, amended: for \<open>lib_code\<close>, \<open>code\<close> and \<open>is_warning\<close> in [0,255], decoding the
  encoding gives the same \<open>lib_code\<close> and the same \<open>code\<close>; for every
  \<open>is_warning\<close>, in that range or not, the decoded \<open>is_warning\<close> is 1 when the encoded
  32-bit value is odd and 0 when it is even, and the value is odd exactly when
  \<open>is_warning\<close> is; so \<open>is_warning = 2\<close> decodes as not a warning.
\<close>

theorem decode_encode_in_range:
  "(0 \<le> l \<and> l \<le> 255 \<and> 0 \<le> c \<and> c \<le> 255 \<and> 0 \<le> w \<and> w \<le> 255 \<longrightarrow>
      (case gal_error_bits_extract (to_uint32 (GAL_ERROR_BITSET l c w)) of
         (lib, cd, warn) \<Rightarrow> uint lib = l \<and> uint cd = c))
   \<and> snd (snd (gal_error_bits_extract (to_uint32 (GAL_ERROR_BITSET l c w)))) =
        (if odd (to_uint32 (GAL_ERROR_BITSET l c w)) then 1 else 0)
   \<and> (odd (to_uint32 (GAL_ERROR_BITSET l c w)) \<longleftrightarrow> odd w)
   \<and> snd (snd (gal_error_bits_extract (to_uint32 (GAL_ERROR_BITSET l c 2)))) = 0"
proof -
  have fields: "uint (fst (gal_error_bits_extract (to_uint32 (GAL_ERROR_BITSET l c w)))) = l
      \<and> uint (fst (snd (gal_error_bits_extract (to_uint32 (GAL_ERROR_BITSET l c w))))) = c"
    if r: "0 \<le> l" "l \<le> 255" "0 \<le> c" "c \<le> 255" "0 \<le> w" "w \<le> 255"
  proof -
    have tb: "take_bit 8 l = l" "take_bit 8 c = c" "take_bit 8 w = w"
      using r by (simp_all add: in_range_take_bit)
    show ?thesis
      using bitset_lib_field [of l c w] bitset_code_field [of l c w] r
      by (simp add: tb bits_extract_eq uint_ucast_w32_of_byte)
  qed
  then have "0 \<le> l \<and> l \<le> 255 \<and> 0 \<le> c \<and> c \<le> 255 \<and> 0 \<le> w \<and> w \<le> 255 \<longrightarrow>
      (case gal_error_bits_extract (to_uint32 (GAL_ERROR_BITSET l c w)) of
         (lib, cd, warn) \<Rightarrow> uint lib = l \<and> uint cd = c)"
    by (simp add: case_prod_beta)
  moreover have "snd (snd (gal_error_bits_extract (to_uint32 (GAL_ERROR_BITSET l c w)))) =
        (if odd (to_uint32 (GAL_ERROR_BITSET l c w)) then 1 else 0)"
    by (simp add: bits_extract_eq)
  moreover have "odd (to_uint32 (GAL_ERROR_BITSET l c w)) \<longleftrightarrow> odd w"
    by (simp add: odd_to_uint32 odd_bitset)
  moreover have "snd (snd (gal_error_bits_extract (to_uint32 (GAL_ERROR_BITSET l c 2)))) = 0"
    by (simp add: bits_extract_eq odd_to_uint32 odd_bitset)
  ultimately show ?thesis by blast
qed

theorem decode_encode_in_range_witness:
  "(0::int) \<le> 8 \<and> (8::int) \<le> 255 \<and> (0::int) \<le> 200 \<and> (200::int) \<le> 255
   \<and> (0::int) \<le> 3 \<and> (3::int) \<le> 255
   \<and> (case gal_error_bits_extract (to_uint32 (GAL_ERROR_BITSET 8 200 3)) of
         (lib, cd, warn) \<Rightarrow> uint lib = 8 \<and> uint cd = 200)
   \<and> snd (snd (gal_error_bits_extract (to_uint32 (GAL_ERROR_BITSET 8 200 3)))) = 1
   \<and> odd (to_uint32 (GAL_ERROR_BITSET 8 200 3))
   \<and> snd (snd (gal_error_bits_extract (to_uint32 (GAL_ERROR_BITSET 8 200 2)))) = 0"
  using decode_encode_in_range [of 8 200 3] by simp

section \<open>Pushing a record\<close>

text \<open>
  C4, as the specification has it: with an empty message
  \<^verbatim>\<open>gal_error_add_back_msg\<close> is a no-op that leaves the length of the chain
  unchanged. The function returns early on \<^verbatim>\<open>back_msg == NULL\<close> only: the
  zero-length string is a message, and pushing it on the empty chain gives a chain of
  one record.
\<close>

theorem add_back_msg_empty_string_counterexample:
  "gal_error_add_back_msg [] (Some []) 0 =
     [\<lparr> code = 0, lib_code = 0, type = 0, is_warning = 0,
        back_msg = Some [], front_msg = None \<rparr>]
   \<and> length (gal_error_add_back_msg [] (Some []) 0) \<noteq> length ([] :: chain)"
  by (simp add: gal_error_add_back_msg_def gal_error_bits_extract_def gal_error_allocate_def
      gal_checkset_allocate_copy_def)

text \<open>
  C4, amended: \<^verbatim>\<open>gal_error_add_back_msg\<close> without a message
  (\<^verbatim>\<open>back_msg == NULL\<close>) returns the chain as it was, of the same length; with a
  message of any length, the zero-length string included, it puts in front of the chain
  a new record that carries bits 16-23 of the bitstring as \<open>lib_code\<close>, bits 8-15 as
  \<open>code\<close>, the parity as \<open>is_warning\<close>, the message as \<open>back_msg\<close> and no front
  message, and the old chain follows it unchanged.
\<close>

theorem add_back_msg_pushes:
  "gal_error_add_back_msg chain None bitstring = chain
   \<and> length (gal_error_add_back_msg chain None bitstring) = length chain
   \<and> gal_error_add_back_msg chain (Some m) bitstring =
        \<lparr> code = ucast (drop_bit 8 bitstring AND 255),
          lib_code = ucast (drop_bit 16 bitstring AND 255),
          type = 0,
          is_warning = (if odd bitstring then 1 else 0),
          back_msg = Some m,
          front_msg = None \<rparr> # chain
   \<and> length (gal_error_add_back_msg chain (Some m) bitstring) = Suc (length chain)"
  by (simp add: gal_error_add_back_msg_def bits_extract_eq gal_error_allocate_def
      gal_checkset_allocate_copy_def and255_w32)

theorem add_back_msg_pushes_witness:
  "gal_error_add_back_msg [sample_A] None (to_uint32 (GAL_ERROR_BITSET 8 2 1)) = [sample_A]
   \<and> gal_error_add_back_msg [sample_A] (Some ''b'') (to_uint32 (GAL_ERROR_BITSET 8 2 1))
       = [sample_B, sample_A]
   \<and> gal_error_add_back_msg [sample_A] (Some []) (to_uint32 (GAL_ERROR_BITSET 8 2 1))
       = [sample_B\<lparr>back_msg := Some []\<rparr>, sample_A]"
proof -
  have bits: "drop_bit 8 (to_uint32 (GAL_ERROR_BITSET 8 2 1)) AND 255 = 2"
    "drop_bit 16 (to_uint32 (GAL_ERROR_BITSET 8 2 1)) AND 255 = 8"
    "odd (to_uint32 (GAL_ERROR_BITSET 8 2 1))"
    by (simp_all add: GAL_ERROR_BITSET_def to_uint32_def)
  show ?thesis
    using add_back_msg_pushes [of "[sample_A]" "to_uint32 (GAL_ERROR_BITSET 8 2 1)" "''b''"]
      add_back_msg_pushes [of "[sample_A]" "to_uint32 (GAL_ERROR_BITSET 8 2 1)" "[]"]
    by (simp add: bits sample_B_def)
qed

section \<open>Looking a code up\<close>

lemma check_loop_iff: "check_loop chain c = 1 \<longleftrightarrow> (\<exists>r \<in> set chain. code r = c)"
  by (induction chain) auto

lemma check_loop_cases: "check_loop chain c = 0 \<or> check_loop chain c = 1"
  by (induction chain) auto

text \<open>
  C7: \<^verbatim>\<open>gal_error_check\<close> returns 1 when some record of the chain has bits 8-15 of
  the bitstring as its \<open>code\<close>, and 0 when none has; \<open>lib_code\<close> and \<open>is_warning\<close>
  are not read. After a push with the identifier of (1, 5, 0), a check with the
  identifier of (99, 5, 1) returns 1.
\<close>

theorem check_matches_code_only:
  "(gal_error_check chain bitstring = 1 \<longleftrightarrow>
      (\<exists>r \<in> set chain. code r = ucast (drop_bit 8 bitstring AND 255)))
   \<and> (gal_error_check chain bitstring = 0 \<longleftrightarrow>
      \<not> (\<exists>r \<in> set chain. code r = ucast (drop_bit 8 bitstring AND 255)))
   \<and> gal_error_check
        (gal_error_add_back_msg chain (Some m) (to_uint32 (GAL_ERROR_BITSET 1 5 0)))
        (to_uint32 (GAL_ERROR_BITSET 99 5 1)) = 1"
proof -
  let ?c = "ucast (drop_bit 8 bitstring AND 255) :: 8 word"
  have eq: "gal_error_check chain bitstring = check_loop chain ?c"
    by (simp add: gal_error_check_def bits_extract_eq and255_w32)
  have one: "gal_error_check chain bitstring = 1 \<longleftrightarrow> (\<exists>r \<in> set chain. code r = ?c)"
    by (simp only: eq check_loop_iff)
  have zero: "gal_error_check chain bitstring = 0 \<longleftrightarrow> \<not> (\<exists>r \<in> set chain. code r = ?c)"
    using check_loop_cases [of chain ?c] check_loop_iff [of chain ?c] by (auto simp: eq)
  have ex: "gal_error_check
        (gal_error_add_back_msg chain (Some m) (to_uint32 (GAL_ERROR_BITSET 1 5 0)))
        (to_uint32 (GAL_ERROR_BITSET 99 5 1)) = 1"
    by (simp add: gal_error_check_def gal_error_add_back_msg_def gal_error_bits_extract_def
        gal_error_allocate_def GAL_ERROR_BITSET_def to_uint32_def)
  from one zero ex show ?thesis by blast
qed

theorem check_matches_code_only_witness:
  "gal_error_check [sample_B, sample_A] (to_uint32 (GAL_ERROR_BITSET 99 1 1)) = 1
   \<and> gal_error_check [sample_B, sample_A] (to_uint32 (GAL_ERROR_BITSET 8 7 0)) = 0"
proof -
  have bits: "ucast (drop_bit 8 (to_uint32 (GAL_ERROR_BITSET 99 1 1)) AND 255) = (1 :: 8 word)"
    "ucast (drop_bit 8 (to_uint32 (GAL_ERROR_BITSET 8 7 0)) AND 255) = (7 :: 8 word)"
    by (simp_all add: GAL_ERROR_BITSET_def to_uint32_def)
  show ?thesis
    using check_matches_code_only [of "[sample_B, sample_A]" "to_uint32 (GAL_ERROR_BITSET 99 1 1)"]
      check_matches_code_only [of "[sample_B, sample_A]" "to_uint32 (GAL_ERROR_BITSET 8 7 0)"]
    by (simp add: bits sample_A_def sample_B_def)
qed

section \<open>The front message\<close>

text \<open>
  C8, as the specification has it: \<^verbatim>\<open>gal_error_add_front_msg\<close> is a no-op when the
  message is empty. The function returns early on \<^verbatim>\<open>front_msg == NULL\<close> only: with
  the zero-length string the head that has no front message gets the zero-length string
  as its front message, and on a head that has one the process ends when
  \<^verbatim>\<open>replace\<close> is 0.
\<close>

theorem add_front_msg_empty_string_counterexample:
  "gal_error_add_front_msg [sample_head] (Some []) 0
     = Inr [sample_head\<lparr>front_msg := Some []\<rparr>]
   \<and> gal_error_add_front_msg [sample_head] (Some []) 0 \<noteq> Inr [sample_head]
   \<and> gal_error_add_front_msg [sample_head\<lparr>front_msg := Some ''first''\<rparr>] (Some []) 0
     = Inl EXIT_FAILURE"
  by (simp add: gal_error_add_front_msg_def gal_checkset_allocate_copy_def sample_head_def)

text \<open>
  C8, amended: \<^verbatim>\<open>gal_error_add_front_msg\<close> returns the chain as it was when the
  chain is empty or no message is given (\<^verbatim>\<open>front_msg == NULL\<close>); with a message of any
  length, when the head has a front message and \<^verbatim>\<open>replace\<close> is 0 the process ends
  with \<^verbatim>\<open>EXIT_FAILURE\<close>; when the head has none, or \<^verbatim>\<open>replace\<close> is not 0, the
  head's front message becomes the new one. So a second call on the same head ends the
  process without \<^verbatim>\<open>replace\<close> and overwrites the first message with it.
\<close>

theorem add_front_msg_contract:
  "gal_error_add_front_msg [] fmsg replace = Inr []
   \<and> gal_error_add_front_msg chain None replace = Inr chain
   \<and> (front_msg h \<noteq> None \<longrightarrow>
        gal_error_add_front_msg (h # rest) (Some m) 0 = Inl EXIT_FAILURE)
   \<and> (front_msg h = None \<or> replace \<noteq> 0 \<longrightarrow>
        gal_error_add_front_msg (h # rest) (Some m) replace
          = Inr (h\<lparr>front_msg := Some m\<rparr> # rest))
   \<and> (gal_error_add_front_msg (h # rest) (Some m) replace = Inr chain' \<longrightarrow>
        gal_error_add_front_msg chain' (Some m') 0 = Inl EXIT_FAILURE
        \<and> (replace' \<noteq> 0 \<longrightarrow>
             gal_error_add_front_msg chain' (Some m') replace'
               = Inr (h\<lparr>front_msg := Some m'\<rparr> # rest)))"
  by (auto simp: gal_error_add_front_msg_def gal_checkset_allocate_copy_def
      split: list.splits if_splits)

theorem add_front_msg_contract_witness:
  "gal_error_add_front_msg [] (Some ''ctx'') 0 = Inr []
   \<and> gal_error_add_front_msg [sample_head] None 0 = Inr [sample_head]
   \<and> gal_error_add_front_msg [sample_head] (Some ''first'') 0
        = Inr [sample_head\<lparr>front_msg := Some ''first''\<rparr>]
   \<and> gal_error_add_front_msg [sample_head\<lparr>front_msg := Some ''first''\<rparr>] (Some ''second'') 0
        = Inl EXIT_FAILURE
   \<and> gal_error_add_front_msg [sample_head\<lparr>front_msg := Some ''first''\<rparr>] (Some ''second'') 1
        = Inr [sample_head\<lparr>front_msg := Some ''second''\<rparr>]"
proof -
  have none: "front_msg sample_head = None"
    by (simp add: sample_head_def)
  have first: "gal_error_add_front_msg [sample_head] (Some ''first'') 0
        = Inr [sample_head\<lparr>front_msg := Some ''first''\<rparr>]"
    using add_front_msg_contract [of "Some ''ctx''" 0 "[sample_head]" sample_head "[]" "''first''"]
      none by simp
  have second: "gal_error_add_front_msg [sample_head\<lparr>front_msg := Some ''first''\<rparr>]
          (Some ''second'') 0 = Inl EXIT_FAILURE
      \<and> gal_error_add_front_msg [sample_head\<lparr>front_msg := Some ''first''\<rparr>]
          (Some ''second'') 1 = Inr [sample_head\<lparr>front_msg := Some ''second''\<rparr>]"
    using add_front_msg_contract [of "Some ''ctx''" 0 "[sample_head]" sample_head "[]" "''first''"
        "[sample_head\<lparr>front_msg := Some ''first''\<rparr>]" "''second''" 1] first
    by simp
  show ?thesis
    using add_front_msg_contract [of "Some ''ctx''" 0 "[sample_head]" sample_head "[]" "''first''"]
      first second by simp
qed

section \<open>Rendering a record\<close>

text \<open>
  C9: for a record with a back message, \<^verbatim>\<open>gal_error_to_string\<close> gives
  "front: library: code: back STATUS" when the record has a front message and
  "library: code: back STATUS" when it has none, where STATUS is \<^verbatim>\<open>[BREAKING]\<close> when
  \<open>is_warning\<close> is 0 and \<^verbatim>\<open>[WARNING]\<close> otherwise. A record pushed with
  "division by zero" and the identifier of (3, 5, 0), then given the front message
  "compute\_ratio", renders as "compute\_ratio: ", the name of library 3 (which is
  \<^verbatim>\<open>binary.h\<close>), and ": 5: division by zero [BREAKING]".
\<close>

theorem to_string_format:
  "(back_msg r = Some b \<and> front_msg r = Some f \<longrightarrow>
      gal_error_to_string bug r verbose =
        f @ '': '' @ gal_error_print_lib_name bug (uint (lib_code r)) @ '': ''
          @ decimal (unat (code r)) @ '': '' @ b @ '' ''
          @ (if is_warning r = 0 then ''[BREAKING]'' else ''[WARNING]''))
   \<and> (back_msg r = Some b \<and> front_msg r = None \<longrightarrow>
      gal_error_to_string bug r verbose =
        gal_error_print_lib_name bug (uint (lib_code r)) @ '': ''
          @ decimal (unat (code r)) @ '': '' @ b @ '' ''
          @ (if is_warning r = 0 then ''[BREAKING]'' else ''[WARNING]''))
   \<and> (gal_error_add_front_msg
         (gal_error_add_back_msg chain (Some ''division by zero'')
            (to_uint32 (GAL_ERROR_BITSET 3 5 0)))
         (Some ''compute_ratio'') replace = Inr chain' \<longrightarrow>
       gal_error_to_string bug (hd chain') verbose =
         ''compute_ratio: '' @ gal_error_print_lib_name bug 3
           @ '': 5: division by zero [BREAKING]''
       \<and> gal_error_print_lib_name bug 3 = ''binary.h'')"
proof -
  have fmt1: "back_msg r = Some b \<and> front_msg r = Some f \<longrightarrow>
      gal_error_to_string bug r verbose =
        f @ '': '' @ gal_error_print_lib_name bug (uint (lib_code r)) @ '': ''
          @ decimal (unat (code r)) @ '': '' @ b @ '' ''
          @ (if is_warning r = 0 then ''[BREAKING]'' else ''[WARNING]'')"
    by (simp add: gal_error_to_string_def fmt_s_def)
  have fmt2: "back_msg r = Some b \<and> front_msg r = None \<longrightarrow>
      gal_error_to_string bug r verbose =
        gal_error_print_lib_name bug (uint (lib_code r)) @ '': ''
          @ decimal (unat (code r)) @ '': '' @ b @ '' ''
          @ (if is_warning r = 0 then ''[BREAKING]'' else ''[WARNING]'')"
    by (simp add: gal_error_to_string_def fmt_s_def)
  have bits: "gal_error_bits_extract (to_uint32 (GAL_ERROR_BITSET 3 5 0)) = (3, 5, 0)"
    by (simp add: gal_error_bits_extract_def GAL_ERROR_BITSET_def to_uint32_def)
  have pushed: "gal_error_add_front_msg
         (gal_error_add_back_msg chain (Some ''division by zero'')
            (to_uint32 (GAL_ERROR_BITSET 3 5 0)))
         (Some ''compute_ratio'') replace =
       Inr (\<lparr> code = 5, lib_code = 3, type = 0, is_warning = 0,
              back_msg = Some ''division by zero'',
              front_msg = Some ''compute_ratio'' \<rparr> # chain)"
    by (simp add: gal_error_add_front_msg_def gal_error_add_back_msg_def bits
        gal_error_allocate_def gal_checkset_allocate_copy_def)
  have five: "decimal 5 = ''5''"
    by simp
  have name: "gal_error_print_lib_name bug 3 = ''binary.h''"
    by (simp add: gal_error_print_lib_name_def lib_names_def)
  have scen: "gal_error_add_front_msg
         (gal_error_add_back_msg chain (Some ''division by zero'')
            (to_uint32 (GAL_ERROR_BITSET 3 5 0)))
         (Some ''compute_ratio'') replace = Inr chain' \<longrightarrow>
       gal_error_to_string bug (hd chain') verbose =
         ''compute_ratio: '' @ gal_error_print_lib_name bug 3
           @ '': 5: division by zero [BREAKING]''"
    unfolding pushed
    by (auto simp: gal_error_to_string_def fmt_s_def five simp del: decimal.simps)
  from fmt1 fmt2 scen name show ?thesis by blast
qed

theorem to_string_format_witness:
  "back_msg (sample_head\<lparr>front_msg := Some ''compute_ratio''\<rparr>) = Some ''division by zero''
   \<and> front_msg (sample_head\<lparr>front_msg := Some ''compute_ratio''\<rparr>) = Some ''compute_ratio''
   \<and> gal_error_to_string ''bug-gnuastro@gnu.org''
        (sample_head\<lparr>front_msg := Some ''compute_ratio''\<rparr>) 0
      = ''compute_ratio: binary.h: 5: division by zero [BREAKING]''
   \<and> back_msg (sample_head\<lparr>is_warning := 1\<rparr>) = Some ''division by zero''
   \<and> front_msg (sample_head\<lparr>is_warning := 1\<rparr>) = None
   \<and> gal_error_to_string ''bug-gnuastro@gnu.org'' (sample_head\<lparr>is_warning := 1\<rparr>) 0
      = ''binary.h: 5: division by zero [WARNING]''
   \<and> gal_error_add_front_msg
         (gal_error_add_back_msg [] (Some ''division by zero'')
            (to_uint32 (GAL_ERROR_BITSET 3 5 0)))
         (Some ''compute_ratio'') 0
      = Inr [sample_head\<lparr>front_msg := Some ''compute_ratio''\<rparr>]
   \<and> gal_error_to_string ''bug-gnuastro@gnu.org''
        (hd [sample_head\<lparr>front_msg := Some ''compute_ratio''\<rparr>]) 0
      = ''compute_ratio: binary.h: 5: division by zero [BREAKING]''"
proof -
  have bits: "gal_error_bits_extract (to_uint32 (GAL_ERROR_BITSET 3 5 0)) = (3, 5, 0)"
    by (simp add: gal_error_bits_extract_def GAL_ERROR_BITSET_def to_uint32_def)
  have pushed: "gal_error_add_front_msg
         (gal_error_add_back_msg [] (Some ''division by zero'')
            (to_uint32 (GAL_ERROR_BITSET 3 5 0)))
         (Some ''compute_ratio'') 0
      = Inr [sample_head\<lparr>front_msg := Some ''compute_ratio''\<rparr>]"
    by (simp add: gal_error_add_front_msg_def gal_error_add_back_msg_def bits
        gal_error_allocate_def gal_checkset_allocate_copy_def sample_head_def)
  have name: "gal_error_print_lib_name ''bug-gnuastro@gnu.org'' 3 = ''binary.h''"
    by (simp add: gal_error_print_lib_name_def lib_names_def)
  have five: "decimal 5 = ''5''"
    by simp
  have a: "gal_error_to_string ''bug-gnuastro@gnu.org''
        (sample_head\<lparr>front_msg := Some ''compute_ratio''\<rparr>) 0
      = ''compute_ratio: binary.h: 5: division by zero [BREAKING]''"
    using to_string_format [of "sample_head\<lparr>front_msg := Some ''compute_ratio''\<rparr>"
        "''division by zero''" "''compute_ratio''" "''bug-gnuastro@gnu.org''" 0]
    by (simp add: sample_head_def name five del: decimal.simps)
  have b: "gal_error_to_string ''bug-gnuastro@gnu.org'' (sample_head\<lparr>is_warning := 1\<rparr>) 0
      = ''binary.h: 5: division by zero [WARNING]''"
    using to_string_format [of "sample_head\<lparr>is_warning := 1\<rparr>"
        "''division by zero''" "''compute_ratio''" "''bug-gnuastro@gnu.org''" 0]
    by (simp add: sample_head_def name five del: decimal.simps)
  show ?thesis
    using a b pushed by (simp add: sample_head_def)
qed

section \<open>Reversal\<close>

lemma reverse_bitstring_lib:
  "ucast (take_bit 8 (drop_bit 16 (reverse_bitstring e))) = lib_code e"
  unfolding reverse_bitstring_def Let_def
  by (rule bit_word_eqI) (auto simp: bit_simps dest: bit_imp_le_length)

lemma reverse_bitstring_code:
  "ucast (take_bit 8 (drop_bit 8 (reverse_bitstring e))) = code e"
  unfolding reverse_bitstring_def Let_def
  by (rule bit_word_eqI) (auto simp: bit_simps dest: bit_imp_le_length)

lemma reverse_bitstring_odd: "odd (reverse_bitstring e) \<longleftrightarrow> odd (is_warning e)"
proof -
  have "odd (reverse_bitstring e) \<longleftrightarrow> bit (reverse_bitstring e) 0"
    by (simp add: bit_0)
  also have "\<dots> \<longleftrightarrow> bit (is_warning e) 0"
    unfolding reverse_bitstring_def Let_def by (simp add: bit_simps)
  finally show ?thesis by (simp add: bit_0)
qed

lemma parity_and_1: "(if odd (w :: 8 word) then 1 else 0) = w AND 1"
  by (simp add: and_one_eq mod_2_eq_odd)

lemma and_1_cases: "(w :: 8 word) AND 1 = 0 \<or> w AND 1 = 1"
  by (simp add: and_one_eq mod_2_eq_odd)

lemma bits_extract_reverse_bitstring:
  "gal_error_bits_extract (reverse_bitstring e) = (lib_code e, code e, is_warning e AND 1)"
  by (simp add: bits_extract_eq reverse_bitstring_lib reverse_bitstring_code
      reverse_bitstring_odd parity_and_1)

text \<open>One turn of the loop, for a record with a back message and for one without.\<close>

lemma reverse_step_Some:
  assumes "back_msg e = Some b"
  shows "gal_error_add_front_msg
           (gal_error_add_back_msg acc (Some b) (reverse_bitstring e)) (front_msg e) 0
         = Inr (reallocated e # acc)"
  using assms
  by (cases "front_msg e")
     (simp_all add: gal_error_add_front_msg_def gal_error_add_back_msg_def
       bits_extract_reverse_bitstring gal_error_allocate_def gal_checkset_allocate_copy_def
       reallocated_def)

lemma add_back_msg_None: "gal_error_add_back_msg acc None bitstring = acc"
  by (simp add: gal_error_add_back_msg_def)

lemma add_front_msg_is_warning:
  "gal_error_add_front_msg c f r = Inr c' \<Longrightarrow> map is_warning c' = map is_warning c"
  by (auto simp: gal_error_add_front_msg_def split: list.splits if_splits)

lemma reverse_loop_is_warning:
  "reverse_loop xs acc = Inr ys \<Longrightarrow>
     map is_warning ys =
       map (\<lambda>e. is_warning e AND 1) (rev (filter (\<lambda>e. back_msg e \<noteq> None) xs))
         @ map is_warning acc"
proof (induction xs arbitrary: acc)
  case Nil
  then show ?case by simp
next
  case (Cons e xs)
  show ?case
  proof (cases "back_msg e")
    case None
    with Cons.prems obtain acc' where
      step: "gal_error_add_front_msg acc (front_msg e) 0 = Inr acc'" and
      rest: "reverse_loop xs acc' = Inr ys"
      by (auto simp: add_back_msg_None split: sum.splits)
    from Cons.IH [OF rest] add_front_msg_is_warning [OF step] None
    show ?thesis by simp
  next
    case (Some b)
    with Cons.prems have rest: "reverse_loop xs (reallocated e # acc) = Inr ys"
      by (simp add: reverse_step_Some)
    from Cons.IH [OF rest] Some show ?thesis
      by (simp add: reallocated_def)
  qed
qed

lemma reverse_loop_total:
  "\<forall>e \<in> set xs. back_msg e \<noteq> None \<Longrightarrow>
     reverse_loop xs acc = Inr (rev (map reallocated xs) @ acc)"
proof (induction xs arbitrary: acc)
  case Nil
  then show ?case by simp
next
  case (Cons e xs)
  then obtain b where b: "back_msg e = Some b" by auto
  from Cons.prems have rest: "\<forall>e \<in> set xs. back_msg e \<noteq> None"
    by simp
  show ?case
    by (simp add: b reverse_step_Some [OF b] Cons.IH [OF rest])
qed

lemma reverse_length_le_1: "length chain \<le> 1 \<Longrightarrow> gal_error_reverse chain = Inr chain"
  by (cases chain rule: list.exhaust [case_names Nil Cons])
     (auto simp: gal_error_reverse_def split: list.splits)

lemma reverse_eq_loop: "2 \<le> length chain \<Longrightarrow> gal_error_reverse chain = reverse_loop chain []"
  by (auto simp: gal_error_reverse_def split: list.splits)

lemma reallocated_id:
  "type e = 0 \<Longrightarrow> is_warning e = 0 \<or> is_warning e = 1 \<Longrightarrow> reallocated e = e"
  by (auto simp: reallocated_def)

lemma reverse_pushed:
  assumes "\<forall>e \<in> set chain.
             back_msg e \<noteq> None \<and> type e = 0 \<and> (is_warning e = 0 \<or> is_warning e = 1)"
  shows "gal_error_reverse chain = Inr (rev chain)"
proof (cases "2 \<le> length chain")
  case True
  have "map reallocated chain = chain"
    using assms by (simp add: map_idI reallocated_id)
  with True assms show ?thesis
    by (simp add: reverse_eq_loop reverse_loop_total)
next
  case False
  then have le: "length chain \<le> 1" by simp
  then have "rev chain = chain"
    by (cases chain) auto
  with le show ?thesis by (simp add: reverse_length_le_1)
qed

lemma push_then_front_shape:
  assumes "gal_error_add_front_msg (gal_error_add_back_msg c (Some m) b) f r = Inr c'"
  shows "\<exists>e. c' = e # c \<and> back_msg e = Some m \<and> type e = 0
             \<and> (is_warning e = 0 \<or> is_warning e = 1)"
  using assms
  by (auto simp: gal_error_add_front_msg_def gal_error_add_back_msg_def bits_extract_eq
      gal_error_allocate_def gal_checkset_allocate_copy_def split: if_splits)

text \<open>
  C6: push A, then B, then C, each with a message and each followed by a call that may
  give the new head a front message. The chain is then C, B, A, and
  \<^verbatim>\<open>gal_error_reverse\<close> returns the chain A, B, C of the very same records: head A, tail
  C, every field of every record as it was. On the empty chain and on a chain of one
  record, whatever the record holds, it returns the chain unchanged.
\<close>

theorem reverse_three_pushed:
  assumes "gal_error_add_front_msg (gal_error_add_back_msg [] (Some mA) bA) fA rA = Inr cA"
    and "gal_error_add_front_msg (gal_error_add_back_msg cA (Some mB) bB) fB rB = Inr cB"
    and "gal_error_add_front_msg (gal_error_add_back_msg cB (Some mC) bC) fC rC = Inr cC"
  shows "(\<exists>A B C. cA = [A] \<and> cB = [B, A] \<and> cC = [C, B, A]
            \<and> gal_error_reverse cC = Inr [A, B, C])
         \<and> gal_error_reverse [] = Inr []
         \<and> gal_error_reverse [e] = Inr [e]"
proof -
  from push_then_front_shape [OF assms(1)] obtain A where
    A: "cA = [A]" "back_msg A = Some mA" "type A = 0" "is_warning A = 0 \<or> is_warning A = 1"
    by blast
  from push_then_front_shape [OF assms(2)] obtain B where
    B: "cB = B # cA" "back_msg B = Some mB" "type B = 0" "is_warning B = 0 \<or> is_warning B = 1"
    by blast
  from push_then_front_shape [OF assms(3)] obtain C where
    C: "cC = C # cB" "back_msg C = Some mC" "type C = 0" "is_warning C = 0 \<or> is_warning C = 1"
    by blast
  have all: "\<forall>e \<in> set [C, B, A].
               back_msg e \<noteq> None \<and> type e = 0 \<and> (is_warning e = 0 \<or> is_warning e = 1)"
    using A B C by simp
  have "gal_error_reverse [C, B, A] = Inr [A, B, C]"
    using reverse_pushed [OF all] by simp
  with A(1) B(1) C(1) have "\<exists>A B C. cA = [A] \<and> cB = [B, A] \<and> cC = [C, B, A]
            \<and> gal_error_reverse cC = Inr [A, B, C]"
    by simp
  moreover have "gal_error_reverse [] = Inr []" "gal_error_reverse [e] = Inr [e]"
    by (simp_all add: gal_error_reverse_def)
  ultimately show ?thesis by simp
qed

theorem reverse_three_pushed_witness:
  "gal_error_add_front_msg
      (gal_error_add_back_msg [] (Some ''a'') (to_uint32 (GAL_ERROR_BITSET 8 1 0)))
      (Some ''ctx'') 0 = Inr [sample_A]
   \<and> gal_error_add_front_msg
      (gal_error_add_back_msg [sample_A] (Some ''b'') (to_uint32 (GAL_ERROR_BITSET 8 2 1)))
      None 0 = Inr [sample_B, sample_A]
   \<and> gal_error_add_front_msg
      (gal_error_add_back_msg [sample_B, sample_A] (Some ''c'')
         (to_uint32 (GAL_ERROR_BITSET 3 7 0)))
      None 0 = Inr [sample_C, sample_B, sample_A]
   \<and> gal_error_reverse [sample_C, sample_B, sample_A] = Inr [sample_A, sample_B, sample_C]"
proof -
  have bits: "gal_error_bits_extract (to_uint32 (GAL_ERROR_BITSET 8 1 0)) = (8, 1, 0)"
    "gal_error_bits_extract (to_uint32 (GAL_ERROR_BITSET 8 2 1)) = (8, 2, 1)"
    "gal_error_bits_extract (to_uint32 (GAL_ERROR_BITSET 3 7 0)) = (3, 7, 0)"
    by (simp_all add: gal_error_bits_extract_def GAL_ERROR_BITSET_def to_uint32_def)
  have a: "gal_error_add_front_msg
      (gal_error_add_back_msg [] (Some ''a'') (to_uint32 (GAL_ERROR_BITSET 8 1 0)))
      (Some ''ctx'') 0 = Inr [sample_A]"
    by (simp add: gal_error_add_front_msg_def gal_error_add_back_msg_def bits
        gal_error_allocate_def gal_checkset_allocate_copy_def sample_A_def)
  have b: "gal_error_add_front_msg
      (gal_error_add_back_msg [sample_A] (Some ''b'') (to_uint32 (GAL_ERROR_BITSET 8 2 1)))
      None 0 = Inr [sample_B, sample_A]"
    by (simp add: gal_error_add_front_msg_def gal_error_add_back_msg_def bits
        gal_error_allocate_def gal_checkset_allocate_copy_def sample_B_def)
  have c: "gal_error_add_front_msg
      (gal_error_add_back_msg [sample_B, sample_A] (Some ''c'')
         (to_uint32 (GAL_ERROR_BITSET 3 7 0)))
      None 0 = Inr [sample_C, sample_B, sample_A]"
    by (simp add: gal_error_add_front_msg_def gal_error_add_back_msg_def bits
        gal_error_allocate_def gal_checkset_allocate_copy_def sample_C_def)
  from reverse_three_pushed [OF a b c]
  have "gal_error_reverse [sample_C, sample_B, sample_A] = Inr [sample_A, sample_B, sample_C]"
    by blast
  with a b c show ?thesis by simp
qed

text \<open>
  C10: on a chain of two records or more, whenever \<^verbatim>\<open>gal_error_reverse\<close> returns, the
  \<open>is_warning\<close> fields of the chain it returns are the parities (\<open>is_warning AND 1\<close>)
  of the \<open>is_warning\<close> fields of the original records that have a back message, in
  reverse order, so each is 0 or 1 whatever the original stored; and when every
  original record has a back message it does return, with every record re-allocated in
  reverse order.
\<close>

theorem reverse_normalises_is_warning:
  assumes "2 \<le> length chain"
  shows "(gal_error_reverse chain = Inr chain' \<longrightarrow>
            map is_warning chain' =
              map (\<lambda>e. is_warning e AND 1) (rev (filter (\<lambda>e. back_msg e \<noteq> None) chain))
            \<and> (\<forall>r \<in> set chain'. is_warning r = 0 \<or> is_warning r = 1))
         \<and> ((\<forall>e \<in> set chain. back_msg e \<noteq> None) \<longrightarrow>
              gal_error_reverse chain = Inr (map reallocated (rev chain)))"
proof -
  have loop: "gal_error_reverse chain = reverse_loop chain []"
    using assms by (rule reverse_eq_loop)
  have "map is_warning chain' =
          map (\<lambda>e. is_warning e AND 1) (rev (filter (\<lambda>e. back_msg e \<noteq> None) chain))
        \<and> (\<forall>r \<in> set chain'. is_warning r = 0 \<or> is_warning r = 1)"
    if ret: "gal_error_reverse chain = Inr chain'"
  proof -
    from ret loop have "reverse_loop chain [] = Inr chain'" by simp
    from reverse_loop_is_warning [OF this]
    have m: "map is_warning chain' =
          map (\<lambda>e. is_warning e AND 1) (rev (filter (\<lambda>e. back_msg e \<noteq> None) chain))"
      by simp
    have "\<forall>w \<in> set (map is_warning chain'). w = 0 \<or> w = 1"
      unfolding m using and_1_cases by auto
    then have "\<forall>r \<in> set chain'. is_warning r = 0 \<or> is_warning r = 1"
      by simp
    with m show ?thesis by simp
  qed
  moreover have "gal_error_reverse chain = Inr (map reallocated (rev chain))"
    if "\<forall>e \<in> set chain. back_msg e \<noteq> None"
    using that loop by (simp add: reverse_loop_total rev_map)
  ultimately show ?thesis by blast
qed

theorem reverse_normalises_is_warning_witness:
  "(2::nat) \<le> length [sample_A\<lparr>is_warning := 2\<rparr>, sample_B\<lparr>is_warning := 7\<rparr>]
   \<and> gal_error_reverse [sample_A\<lparr>is_warning := 2\<rparr>, sample_B\<lparr>is_warning := 7\<rparr>]
       = Inr [sample_B, sample_A]
   \<and> map is_warning [sample_B, sample_A] = [1, 0]"
proof -
  have len: "2 \<le> length [sample_A\<lparr>is_warning := 2\<rparr>, sample_B\<lparr>is_warning := 7\<rparr>]"
    by simp
  have vals: "(7 :: 8 word) AND 1 = 1" "(2 :: 8 word) AND 1 = 0"
    by simp_all
  from reverse_normalises_is_warning [OF len]
  have "gal_error_reverse [sample_A\<lparr>is_warning := 2\<rparr>, sample_B\<lparr>is_warning := 7\<rparr>]
       = Inr [sample_B, sample_A]"
    by (simp add: sample_A_def sample_B_def reallocated_def vals)
  then show ?thesis
    by (simp add: sample_A_def sample_B_def)
qed

section \<open>Printing the chain and the boundary guard\<close>

lemma to_stderr_loop_result:
  "to_stderr_loop bug verbose head xs n out =
     (if is_warning head = 0 then n + int (length xs) else n,
      out @ map (\<lambda>e. gal_error_to_string bug e verbose) xs)"
  by (induction xs arbitrary: n out) auto

text \<open>
  What the printer returns on every chain: one line per record, and as the count the
  length of the chain when the head is not a warning, 0 when it is (or when the chain is
  empty).
\<close>

lemma to_stderr_all_result:
  "gal_error_to_stderr_all bug chain verbose =
     (if chain \<noteq> [] \<and> is_warning (hd chain) = 0 then int (length chain) else 0,
      map (\<lambda>e. gal_error_to_string bug e verbose) chain)"
  by (cases chain) (simp_all add: gal_error_to_stderr_all_def to_stderr_loop_result)

lemma sample_warning_head_eq:
  "sample_warning_head =
     [\<lparr> code = 3, lib_code = 8, type = 0, is_warning = 1,
        back_msg = Some ''third'', front_msg = None \<rparr>,
      \<lparr> code = 2, lib_code = 8, type = 0, is_warning = 0,
        back_msg = Some ''second'', front_msg = None \<rparr>,
      \<lparr> code = 1, lib_code = 8, type = 0, is_warning = 0,
        back_msg = Some ''first'', front_msg = None \<rparr>]"
  by (simp add: sample_warning_head_def gal_error_add_back_msg_def gal_error_bits_extract_def
      gal_error_allocate_def gal_checkset_allocate_copy_def GAL_ERROR_BITSET_def to_uint32_def)

lemma sample_critical_head_eq:
  "sample_critical_head =
     [\<lparr> code = 3, lib_code = 8, type = 0, is_warning = 0,
        back_msg = Some ''third'', front_msg = None \<rparr>,
      \<lparr> code = 2, lib_code = 8, type = 0, is_warning = 0,
        back_msg = Some ''second'', front_msg = None \<rparr>,
      \<lparr> code = 1, lib_code = 8, type = 0, is_warning = 1,
        back_msg = Some ''first'', front_msg = None \<rparr>]"
  by (simp add: sample_critical_head_def gal_error_add_back_msg_def gal_error_bits_extract_def
      gal_error_allocate_def gal_checkset_allocate_copy_def GAL_ERROR_BITSET_def to_uint32_def)

lemma decimal_digits: "decimal (Suc 0) = ''1''" "decimal 2 = ''2''" "decimal 3 = ''3''"
  by simp_all

lemma lib_name_8: "gal_error_print_lib_name bug 8 = ''cosmology.h''"
  by (simp add: gal_error_print_lib_name_def lib_names_def)

text \<open>
  C1, on the code. Two critical records are pushed and then a warning, so the head is
  the warning: three lines are written, two records have \<open>is_warning = 0\<close>, and the
  function returns 0. With the warning pushed first and the two critical records after
  it, the head is critical and the function returns 3. The specification's 2 is returned in
  neither order.
\<close>

theorem to_stderr_all_counts_by_head:
  "gal_error_to_stderr_all bug sample_warning_head verbose =
     (0, [''cosmology.h: 3: third [WARNING]'',
          ''cosmology.h: 2: second [BREAKING]'',
          ''cosmology.h: 1: first [BREAKING]''])
   \<and> length (filter (\<lambda>r. is_warning r = 0) sample_warning_head) = 2
   \<and> gal_error_to_stderr_all bug sample_critical_head verbose =
     (3, [''cosmology.h: 3: third [BREAKING]'',
          ''cosmology.h: 2: second [BREAKING]'',
          ''cosmology.h: 1: first [WARNING]''])
   \<and> length (filter (\<lambda>r. is_warning r = 0) sample_critical_head) = 2
   \<and> gal_error_to_stderr_all bug [] verbose = (0, [])"
  by (simp add: to_stderr_all_result sample_warning_head_eq sample_critical_head_eq
      gal_error_to_string_def fmt_s_def lib_name_8 decimal_digits del: decimal.simps)

lemma count_nonzero_iff:
  "int (length (filter P xs)) \<noteq> 0 \<longleftrightarrow> (\<exists>x \<in> set xs. P x)"
  by (induction xs) auto

text \<open>
  C2: \<^verbatim>\<open>gal_errorinprogram\<close>, with the printer it calls taken from the
  specification, ends the process with \<^verbatim>\<open>EXIT_FAILURE\<close> exactly when some record of
  the chain has \<open>is_warning = 0\<close>, and returns normally exactly when none has (every
  record a warning, or the chain empty); either way one line per record has been written.
\<close>

theorem errorinprogram_exits_iff_critical:
  "(snd (gal_errorinprogram bug chain) = Inl EXIT_FAILURE \<longleftrightarrow>
      (\<exists>r \<in> set chain. is_warning r = 0))
   \<and> (snd (gal_errorinprogram bug chain) = Inr () \<longleftrightarrow>
      \<not> (\<exists>r \<in> set chain. is_warning r = 0))
   \<and> length (fst (gal_errorinprogram bug chain)) = length chain"
proof -
  have exit: "snd (gal_errorinprogram bug chain) =
      (if \<exists>r \<in> set chain. is_warning r = 0 then Inl EXIT_FAILURE else Inr ())"
    using count_nonzero_iff [of "\<lambda>r. is_warning r = 0" chain]
    by (simp add: gal_errorinprogram_def gal_error_print_def)
  have lines: "length (fst (gal_errorinprogram bug chain)) = length chain"
    by (simp add: gal_errorinprogram_def gal_error_print_def)
  from exit lines show ?thesis by simp
qed

theorem errorinprogram_exits_iff_critical_witness:
  "snd (gal_errorinprogram ''bug-gnuastro@gnu.org'' sample_warning_head) = Inl EXIT_FAILURE
   \<and> snd (gal_errorinprogram ''bug-gnuastro@gnu.org'' [sample_B]) = Inr ()
   \<and> snd (gal_errorinprogram ''bug-gnuastro@gnu.org'' []) = Inr ()
   \<and> length (fst (gal_errorinprogram ''bug-gnuastro@gnu.org'' sample_warning_head)) = 3"
  using errorinprogram_exits_iff_critical [of "''bug-gnuastro@gnu.org''" sample_warning_head]
    errorinprogram_exits_iff_critical [of "''bug-gnuastro@gnu.org''" "[sample_B]"]
    errorinprogram_exits_iff_critical [of "''bug-gnuastro@gnu.org''" "[]"]
  by (simp add: sample_warning_head_eq sample_B_def)

end
